theory Spec2Isabelle
  imports Complex_Main "HOL-Library.Word" "HOL-Library.Signed_Division"
begin

section \<open>Shared vocabulary\<close>

text \<open>
  Go byte slices are lists of 8-bit words; a Go \<^verbatim>\<open>error\<close> value is opaque and carries
  its message only.
\<close>

type_synonym bytes = "8 word list"

datatype error = GoError string

text \<open>
  How a call ends. \<open>Done\<close>: it returned, leaving the state given. \<open>Blocked\<close>: the
  goroutine is parked for ever on a channel operation or on a read that no one
  will complete, in the state given. \<open>Panic\<close>: a run-time panic (nil dereference,
  send on a closed channel).
\<close>

datatype 'a outcome = Done 'a | Blocked 'a | Panic

section \<open>The session agent (package cherryAgent)\<close>

subsection \<open>Data\<close>

text \<open>
  \<^verbatim>\<open>time.Duration\<close> is an \<^verbatim>\<open>int64\<close> count of nanoseconds; \<^verbatim>\<open>time.Second\<close> is
  \<open>10^9\<close>. \<^verbatim>\<open>Duration.Seconds()\<close> is, in the Go library,
  \<^verbatim>\<open>sec := d / Second; nsec := d % Second; return float64(sec) + float64(nsec)/1e9\<close>
  with Go's truncating division. The model computes the same sum over the
  rationals; the only use of the result is the comparison with 1 in \<open>NewAgent\<close>,
  which rounding to \<^verbatim>\<open>float64\<close> does not change: \<open>sec\<close> is exact, the fraction stays
  in the open interval from -1 to 1, and rounding is monotone.
\<close>

type_synonym Duration = "64 word"

definition Second :: Duration where
  "Second = 1000000000"

definition Seconds :: "Duration \<Rightarrow> rat" where
  "Seconds d =
     of_int (sint d sdiv sint Second) + of_int (sint d smod sint Second) / 1000000000"

text \<open>
  A wall-clock instant is its number of nanoseconds since the Unix epoch.
  \<^verbatim>\<open>Time.Add\<close> adds a duration and \<^verbatim>\<open>Time.Unix\<close> gives the whole seconds
  since the epoch, rounded down.
\<close>

type_synonym Time = int

definition Add :: "Time \<Rightarrow> Duration \<Rightarrow> Time" where
  "Add t d = t + sint d"

definition Unix :: "Time \<Rightarrow> int" where
  "Unix t = t div 1000000000"

text \<open>
  Modelled from the spec: the packages \<^verbatim>\<open>cherryPacket\<close>, \<^verbatim>\<open>cherryMessage\<close> and
  \<^verbatim>\<open>cherrySession\<close> are not among the sources. A packet is a type byte with a
  payload (\<^verbatim>\<open>Data = 4\<close>, \<^verbatim>\<open>Kick = 5\<close>), a message type is one of Request, Notify,
  Response and Push, and a session is in one of the states Init, Working and
  Closed. Of a session the agent reads and writes the state only; the other
  calls it makes on the session (\<^verbatim>\<open>Warnf\<close>, \<^verbatim>\<open>Debugf\<close>, \<^verbatim>\<open>Debug\<close>,
  \<^verbatim>\<open>OnCloseProcess\<close>) are recorded as events of the agent's trace. Every one of
  those methods reads the session, so a call through a nil \<^verbatim>\<open>*Session\<close> panics.
\<close>

type_synonym packet_type = "8 word"

definition cherryPacket_Data :: packet_type where
  "cherryPacket_Data = 4"

definition cherryPacket_Kick :: packet_type where
  "cherryPacket_Kick = 5"

record packet =
  packet_Type :: packet_type
  packet_Data :: bytes

datatype message_type = Message_Request | Message_Notify | Message_Response | Message_Push

datatype session_state = Init | Working | Closed

record Session =
  State :: session_state

text \<open>\<^verbatim>\<open>cherryMessage.Message\<close>, as the writer loop fills it.\<close>

record Message =
  Type :: message_type
  ID :: "64 word"
  Route :: string
  Data :: bytes
  Error :: bool

text \<open>\<^verbatim>\<open>pendingMessage\<close>; its field \<^verbatim>\<open>typ\<close> is \<open>msg_typ\<close> here.\<close>

record 'v pendingMessage =
  msg_typ :: message_type
  route :: string
  mid :: "64 word"
  payload :: 'v
  err :: bool

text \<open>
  \<^verbatim>\<open>Options\<close>. A command (\<^verbatim>\<open>ICommand\<close>) is its \<^verbatim>\<open>Do(session, packet)\<close>, which may
  change the session it is handed.
\<close>

record Options =
  Heartbeat :: Duration
  Commands :: "packet_type \<rightharpoonup> (Session \<Rightarrow> packet \<Rightarrow> Session)"

text \<open>
  Every call the agent makes on a collaborator is an event; the trace lists
  them in the order they happen. A log event carries its format string.
  \<open>ConnWrite\<close> carries the bytes handed to \<^verbatim>\<open>conn.Write\<close> and the error it
  returned, \<open>ConnClose\<close> the error of \<^verbatim>\<open>conn.Close\<close>. \<open>DieSignal\<close> is a completed
  send on \<^verbatim>\<open>chDie\<close>.
\<close>

datatype event =
    SessionWarnf string
  | SessionDebugf string
  | LoggerWarn
  | LoggerWarnf string
  | OnCloseProcess
  | DieSignal
  | ConnWrite bytes "error option"
  | ConnClose "error option"
  | TickerStop

text \<open>
  \<^verbatim>\<open>Agent\<close>. \<open>chSend\<close> and \<open>chWrite\<close> hold the buffered channels' contents, oldest
  first; both have capacity \<open>WriteBacklog\<close>. \<^verbatim>\<open>chDie\<close> is unbuffered: it holds
  nothing, a send on it completes only while another goroutine receives.
  \<open>lockHeld\<close> says that the agent's mutex is held by a call that will never
  return. \<open>NewAgent\<close> leaves \<open>Session\<close> nil; the owner of the agent sets it.
\<close>

record 'v Agent =
  Options :: Options
  Session :: "Session option"
  chSend :: "'v pendingMessage list"
  chWrite :: "bytes list"
  chSendClosed :: bool
  chWriteClosed :: bool
  lastAt :: "64 word"
  lockHeld :: bool
  trace :: "event list"

text \<open>
  What stands behind the interfaces the agent calls: the application's
  serializer and packet codec, \<^verbatim>\<open>cherryMessage.Encode\<close>, the connection and
  the profile's debug flag. \<open>Marshal\<close> returns both of Go's results, since
  \<open>Kick\<close> goes on to use the bytes of a failed call.
\<close>

record 'v facade =
  Marshal :: "'v \<Rightarrow> bytes \<times> error option"
  PacketEncode :: "packet_type \<Rightarrow> bytes \<Rightarrow> error + bytes"
  PacketDecode :: "bytes \<Rightarrow> error + packet list"
  MessageEncode :: "Message \<Rightarrow> error + bytes"
  connWrite :: "bytes \<Rightarrow> error option"
  connClose :: "error option"
  profileDebug :: bool

definition WriteBacklog :: nat where
  "WriteBacklog = 64"

subsection \<open>Operations\<close>

definition logged :: "event \<Rightarrow> 'v Agent \<Rightarrow> 'v Agent" where
  "logged e a = a\<lparr>trace := trace a @ [e]\<rparr>"

text \<open>A logging call on \<^verbatim>\<open>a.Session\<close>.\<close>

definition sessionLog :: "event \<Rightarrow> 'v Agent \<Rightarrow> 'v Agent outcome" where
  "sessionLog e a = (case Session a of None \<Rightarrow> Panic | Some s \<Rightarrow> Done (logged e a))"

text \<open>
  \<open>NewAgent\<close>. The options are a pointer the agent keeps: a nil pointer panics at
  \<^verbatim>\<open>agent.Heartbeat\<close>.
\<close>

definition NewAgent :: "Options option \<Rightarrow> 'v Agent outcome" where
  "NewAgent opts =
     (case opts of
        None \<Rightarrow> Panic
      | Some opt \<Rightarrow>
          Done \<lparr> Options =
                   (if Seconds (Heartbeat opt) < 1
                    then opt\<lparr>Heartbeat := 60 * Second\<rparr> else opt),
                 Session = None, chSend = [], chWrite = [],
                 chSendClosed = False, chWriteClosed = False,
                 lastAt = 0, lockHeld = False, trace = [] \<rparr>)"

definition SetLastAt :: "Time \<Rightarrow> 'v Agent \<Rightarrow> 'v Agent" where
  "SetLastAt now a = a\<lparr>lastAt := of_int (Unix now)\<rparr>"

text \<open>
  \<open>Send\<close>. Past the two guards the message goes into \<open>chSend\<close>, which has room;
  a send on a closed channel panics.
\<close>

definition Send ::
  "message_type \<Rightarrow> string \<Rightarrow> 64 word \<Rightarrow> 'v \<Rightarrow> bool \<Rightarrow> 'v Agent \<Rightarrow> 'v Agent outcome" where
  "Send t r m v isError a =
     (case Session a of
        None \<Rightarrow> Panic
      | Some s \<Rightarrow>
          if State s = Closed
          then Done (logged (SessionWarnf ''[send] session status == Closed'') a)
          else if length (chSend a) \<ge> WriteBacklog
          then Done (logged (SessionWarnf ''[send] session send buffer exceed'') a)
          else if chSendClosed a then Panic
          else Done (a\<lparr>chSend := chSend a @
                   [\<lparr>msg_typ = t, route = r, mid = m, payload = v, err = isError\<rparr>]\<rparr>))"

definition Push :: "string \<Rightarrow> 'v \<Rightarrow> 'v Agent \<Rightarrow> 'v Agent outcome" where
  "Push r v a = Send Message_Push r 0 v False a"

text \<open>\<open>Response\<close>: the variadic \<^verbatim>\<open>isError\<close> is a list, of which the head counts.\<close>

definition Response :: "64 word \<Rightarrow> 'v \<Rightarrow> bool list \<Rightarrow> 'v Agent \<Rightarrow> 'v Agent outcome" where
  "Response m v isError a =
     Send Message_Response [] m v (case isError of [] \<Rightarrow> False | e # _ \<Rightarrow> e) a"

text \<open>
  \<open>Close\<close>. The first argument says whether a goroutine is receiving from
  \<^verbatim>\<open>chDie\<close>: the writer loop at its \<^verbatim>\<open>select\<close> is the only receiver there is. With
  no receiver the send \<^verbatim>\<open>a.chDie <- true\<close> never completes: the call stays parked
  after the hooks, holding the agent's mutex, and \<^verbatim>\<open>conn.Close\<close> is not reached.
  A call that finds the mutex held for ever is parked at \<^verbatim>\<open>a.Lock()\<close>.
\<close>

definition Close :: "bool \<Rightarrow> 'v facade \<Rightarrow> 'v Agent \<Rightarrow> 'v Agent outcome" where
  "Close receiving app a =
     (if lockHeld a then Blocked a
      else case Session a of
        None \<Rightarrow> Panic
      | Some s \<Rightarrow>
          if State s = Closed then Done a
          else
            let a1 = logged OnCloseProcess (a\<lparr>Session := Some (s\<lparr>State := Closed\<rparr>)\<rparr>)
            in if \<not> receiving then Blocked (a1\<lparr>lockHeld := True\<rparr>)
               else
                 let a2 = logged (ConnClose (connClose app)) (logged DieSignal a1)
                 in (case connClose app of
                       None \<Rightarrow> Done a2
                     | Some e \<Rightarrow> sessionLog (SessionDebugf ''session close error[%s]'') a2))"

text \<open>
  \<open>Kick\<close>. A marshal error is logged and the call goes on with the bytes
  \<open>Marshal\<close> returned; a packet-encode error is logged and ends the call.
\<close>

definition Kick :: "'v facade \<Rightarrow> 'v \<Rightarrow> 'v Agent \<Rightarrow> 'v Agent outcome" where
  "Kick app reason a =
     (case Marshal app reason of
        (bs, merr) \<Rightarrow>
          (case (case merr of
                   Some e \<Rightarrow>
                     sessionLog
                       (SessionWarnf ''[Kick] marshal fail. [reason = %v] [error = %s].'') a
                 | None \<Rightarrow> Done a) of
             Panic \<Rightarrow> Panic
           | Blocked a1 \<Rightarrow> Blocked a1
           | Done a1 \<Rightarrow>
               (case PacketEncode app cherryPacket_Kick bs of
                  Inl e \<Rightarrow>
                    sessionLog
                      (SessionWarnf ''[kick] packet encode error.[reason = %v] [error = %s].'') a1
                | Inr pkg \<Rightarrow>
                    let a2 = logged (ConnWrite pkg (connWrite app pkg)) a1;
                        a3 = (case connWrite app pkg of
                                Some e \<Rightarrow> logged LoggerWarn a2
                              | None \<Rightarrow> a2)
                    in if profileDebug app
                       then sessionLog (SessionDebugf ''[Kick] [reason = %v]'') a3
                       else Done a3)))"

text \<open>\<open>processPacket\<close>; the clock reading is the one \<open>SetLastAt\<close> takes.\<close>

definition processPacket :: "Time \<Rightarrow> packet \<Rightarrow> 'v Agent \<Rightarrow> 'v Agent outcome" where
  "processPacket now pkt a =
     (case Commands (Options a) (packet_Type pkt) of
        None \<Rightarrow> sessionLog (SessionDebugf ''packet[%s] type not found.'') a
      | Some cmd \<Rightarrow>
          (case Session a of
             None \<Rightarrow> Done (logged (LoggerWarnf ''session is nil.'') a)
           | Some s \<Rightarrow> Done (SetLastAt now (a\<lparr>Session := Some (cmd s pkt)\<rparr>))))"

fun processPackets :: "Time \<Rightarrow> packet list \<Rightarrow> 'v Agent \<Rightarrow> 'v Agent outcome" where
  "processPackets now [] a = Done a"
| "processPackets now (pkt # pkts) a =
     (case processPacket now pkt a of
        Done a' \<Rightarrow> processPackets now pkts a'
      | Blocked a' \<Rightarrow> Blocked a'
      | Panic \<Rightarrow> Panic)"

text \<open>
  \<open>read\<close>. The connection is the script of what \<^verbatim>\<open>GetNextMessage\<close> returns call
  by call, each with the clock reading of that turn of the loop; when the script
  is used up the reader stays parked in \<^verbatim>\<open>GetNextMessage\<close>. The deferred \<open>Close\<close>
  runs when the loop returns.
\<close>

fun read ::
  "bool \<Rightarrow> 'v facade \<Rightarrow> (Time \<times> (error + bytes)) list \<Rightarrow> 'v Agent \<Rightarrow> 'v Agent outcome" where
  "read receiving app [] a = Blocked a"
| "read receiving app ((now, Inl e) # script) a = Close receiving app a"
| "read receiving app ((now, Inr msg) # script) a =
     (case PacketDecode app msg of
        Inl e \<Rightarrow>
          (case sessionLog (SessionWarnf ''packet decoder error. error[%s], msg[%s]'') a of
             Done a' \<Rightarrow> read receiving app script a'
           | Blocked a' \<Rightarrow> Blocked a'
           | Panic \<Rightarrow> Panic)
      | Inr packets \<Rightarrow>
          if length packets < 1 then read receiving app script a
          else
            (case processPackets now packets a of
               Done a' \<Rightarrow> read receiving app script a'
             | Blocked a' \<Rightarrow> Blocked a'
             | Panic \<Rightarrow> Panic))"

subsection \<open>The writer loop\<close>

text \<open>
  The four communications of the \<^verbatim>\<open>select\<close> in \<^verbatim>\<open>write\<close>, in the order of its
  cases.
\<close>

datatype source = DeathSignal | HeartbeatTick | RawWriteQueue | SendQueue

text \<open>
  A communication can proceed when: a \<open>Close\<close> is parked sending on \<^verbatim>\<open>chDie\<close>
  (\<open>dying\<close>); the ticker has delivered a tick (\<open>ticked\<close>); the queue holds
  something.
\<close>

definition ready :: "bool \<Rightarrow> bool \<Rightarrow> 'v Agent \<Rightarrow> source \<Rightarrow> bool" where
  "ready dying ticked a src =
     (case src of
        DeathSignal \<Rightarrow> dying
      | HeartbeatTick \<Rightarrow> ticked
      | RawWriteQueue \<Rightarrow> chWrite a \<noteq> []
      | SendQueue \<Rightarrow> chSend a \<noteq> [])"

text \<open>
  What the body of a case does to the loop: go round again, return, or stay
  parked (a receive from an empty queue; the send \<^verbatim>\<open>a.chWrite <- p\<close> into a full
  queue, whose only receiver is this loop).
\<close>

datatype 'a step = Continue 'a | Return 'a | StepBlocked 'a | StepPanic

definition write_case :: "'v facade \<Rightarrow> Time \<Rightarrow> source \<Rightarrow> 'v Agent \<Rightarrow> 'v Agent step" where
  "write_case app now src a =
     (case src of
        DeathSignal \<Rightarrow> Return a
      | HeartbeatTick \<Rightarrow>
          let deadline = Unix (Add now (- Heartbeat (Options a)))
          in if sint (lastAt a) < deadline
             then (case sessionLog (SessionDebugf ''check heartbeat timeout.'') a of
                     Done a' \<Rightarrow> Return a'
                   | Blocked a' \<Rightarrow> StepBlocked a'
                   | Panic \<Rightarrow> StepPanic)
             else Continue a
      | RawWriteQueue \<Rightarrow>
          (case chWrite a of
             [] \<Rightarrow> StepBlocked a
           | bs # rest \<Rightarrow>
               let a1 = logged (ConnWrite bs (connWrite app bs)) (a\<lparr>chWrite := rest\<rparr>)
               in (case connWrite app bs of
                     Some e \<Rightarrow> Return (logged LoggerWarn a1)
                   | None \<Rightarrow> Continue a1))
      | SendQueue \<Rightarrow>
          (case chSend a of
             [] \<Rightarrow> StepBlocked a
           | data # rest \<Rightarrow>
               let a1 = a\<lparr>chSend := rest\<rparr>
               in (case Marshal app (payload data) of
                     (p, Some e) \<Rightarrow>
                       (case sessionLog
                               (SessionDebugf ''message serializer error. data[%s]'') a1 of
                          Done a' \<Rightarrow> Return a'
                        | Blocked a' \<Rightarrow> StepBlocked a'
                        | Panic \<Rightarrow> StepPanic)
                   | (p, None) \<Rightarrow>
                       (case MessageEncode app
                               \<lparr>Type = msg_typ data, ID = mid data, Route = route data,
                                Data = p, Error = err data\<rparr> of
                          Inl e \<Rightarrow> Continue (logged LoggerWarn a1)
                        | Inr em \<Rightarrow>
                            (case PacketEncode app cherryPacket_Data em of
                               Inl e \<Rightarrow> Continue (logged LoggerWarn a1)
                             | Inr pk \<Rightarrow>
                                 if length (chWrite a1) \<ge> WriteBacklog
                                 then StepBlocked a1
                                 else Continue (a1\<lparr>chWrite := chWrite a1 @ [pk]\<rparr>))))))"

text \<open>
  One turn of the \<^verbatim>\<open>for { select { ... } }\<close>. Go's \<^verbatim>\<open>select\<close> runs one of the
  communications that can proceed, chosen by a uniform pseudo-random draw when
  there are several; the order of the cases plays no part. The relation holds
  of every turn the loop can take.
\<close>

inductive write_select ::
  "'v facade \<Rightarrow> Time \<Rightarrow> bool \<Rightarrow> bool \<Rightarrow> 'v Agent \<Rightarrow> source \<Rightarrow> 'v Agent step \<Rightarrow> bool" where
  select: "ready dying ticked a src \<Longrightarrow>
           write_select app now dying ticked a src (write_case app now src a)"

text \<open>
  Following the spec's words, for comparison with \<open>write_select\<close>: the source a
  selector with the priority order death signal, heartbeat tick, raw-write
  queue, send queue would take.
\<close>

definition first_ready :: "bool \<Rightarrow> bool \<Rightarrow> 'v Agent \<Rightarrow> source option" where
  "first_ready dying ticked a =
     (if dying then Some DeathSignal
      else if ticked then Some HeartbeatTick
      else if chWrite a \<noteq> [] then Some RawWriteQueue
      else if chSend a \<noteq> [] then Some SendQueue
      else None)"

text \<open>
  The deferred function of \<^verbatim>\<open>write\<close>. While it runs no goroutine receives from
  \<^verbatim>\<open>chDie\<close>: the only receive is in the loop it has left. Closing a channel that
  is closed already panics.
\<close>

definition write_deferred :: "'v facade \<Rightarrow> 'v Agent \<Rightarrow> 'v Agent outcome" where
  "write_deferred app a =
     (case sessionLog (SessionDebugf ''close session. [sid = %s]'') a of
        Panic \<Rightarrow> Panic
      | Blocked a1 \<Rightarrow> Blocked a1
      | Done a1 \<Rightarrow>
          (case Close False app (logged TickerStop a1) of
             Panic \<Rightarrow> Panic
           | Blocked a2 \<Rightarrow> Blocked a2
           | Done a2 \<Rightarrow>
               if chSendClosed a2 \<or> chWriteClosed a2 then Panic
               else Done (a2\<lparr>chSendClosed := True, chWriteClosed := True\<rparr>)))"

text \<open>
  The \<^verbatim>\<open>for { select { ... } }\<close> of \<^verbatim>\<open>write\<close> with the deferred function behind
  it, run along a schedule: the list of the sources the \<^verbatim>\<open>select\<close> takes turn
  by turn, each with the clock reading of that turn. An entry \<open>DeathSignal\<close> or
  \<open>HeartbeatTick\<close> is the arrival of that signal; an entry for an empty queue
  is no turn of the loop and is passed over. At the end of the schedule the
  writer stays parked at the \<^verbatim>\<open>select\<close>. When a turn returns, the deferred
  function runs.
\<close>

fun write_for :: "'v facade \<Rightarrow> (source \<times> Time) list \<Rightarrow> 'v Agent \<Rightarrow> 'v Agent outcome" where
  "write_for app [] a = Blocked a"
| "write_for app ((src, now) # sched) a =
     (if ready (src = DeathSignal) (src = HeartbeatTick) a src
      then (case write_case app now src a of
              Continue a' \<Rightarrow> write_for app sched a'
            | Return a' \<Rightarrow> write_deferred app a'
            | StepBlocked a' \<Rightarrow> Blocked a'
            | StepPanic \<Rightarrow> Panic)
      else write_for app sched a)"

text \<open>
  The method \<^verbatim>\<open>write\<close> (\<open>write_loop\<close> here). Its first statement,
  \<^verbatim>\<open>time.NewTicker(a.Heartbeat)\<close>, panics for a heartbeat of zero or less, before
  the deferred function is registered; otherwise the loop runs.
\<close>

definition write_loop ::
  "'v facade \<Rightarrow> (source \<times> Time) list \<Rightarrow> 'v Agent \<Rightarrow> 'v Agent outcome" where
  "write_loop app sched a =
     (if sint (Heartbeat (Options a)) \<le> 0 then Panic else write_for app sched a)"

section \<open>Discovery over the message bus (DiscoveryNATS)\<close>

subsection \<open>Data\<close>

text \<open>\<^verbatim>\<open>cproto.Member\<close>; the settings map is a list of pairs, empty for nil.\<close>

record Member =
  NodeId :: string
  NodeType :: string
  Address :: string
  Settings :: "(string \<times> string) list"

text \<open>\<^verbatim>\<open>nats.Msg\<close>: the subject, the reply subject and the payload.\<close>

record Msg =
  Msg_Subject :: string
  Msg_Reply :: string
  Msg_Data :: bytes

text \<open>
  The calls made on the bus client (\<^verbatim>\<open>natsConn\<close>) and on a received message, each
  with the error it returned. \<open>BusClose\<close> is \<^verbatim>\<open>natsConn.Close()\<close>.
\<close>

datatype bus_event =
    Subscribe string "error option"
  | Publish string bytes "error option"
  | Respond Msg bytes "error option"
  | BusClose

text \<open>
  What stands behind the interfaces discovery calls: the application's
  serializer, at the two types it is used at, and the bus.
\<close>

record cluster =
  Marshal_Member :: "Member \<Rightarrow> error + bytes"
  Unmarshal_Member :: "bytes \<Rightarrow> error + Member"
  Marshal_MemberList :: "Member list \<Rightarrow> error + bytes"
  busSubscribe :: "string \<Rightarrow> error option"
  busPublish :: "string \<Rightarrow> bytes \<Rightarrow> error option"
  msgRespond :: "Msg \<Rightarrow> bytes \<Rightarrow> error option"

text \<open>
  \<^verbatim>\<open>DiscoveryNATS\<close>. \<open>memberList\<close> is the registry of the embedded
  \<^verbatim>\<open>DiscoveryDefault\<close>, \<open>app_NodeId\<close> is \<^verbatim>\<open>m.app.NodeId()\<close>, \<open>natsConn\<close> lists the
  calls made on the bus so far and \<open>clog\<close> the format strings of the warnings
  logged.
\<close>

record DiscoveryNATS =
  memberList :: "Member list"
  app_NodeId :: string
  masterMember :: Member
  registerSubject :: string
  unregisterSubject :: string
  addSubject :: string
  natsConn :: "bus_event list"
  clog :: "string list"

subsection \<open>The member registry\<close>

text \<open>
  Modelled from the spec: \<^verbatim>\<open>DiscoveryDefault\<close>, with its methods \<^verbatim>\<open>AddMember\<close> and
  \<^verbatim>\<open>RemoveMember\<close>, is not among the sources. By the spec's registry contract
  insertion order is kept, an add of a node id that is present leaves the
  registry as it is (the same member again is idempotent, a conflicting one
  fails), and a removal takes the entry of that node id away, or does nothing
  when there is none. Every member this program adds is a \<^verbatim>\<open>*cproto.Member\<close>, so
  the type assertion in the register handler's loop holds of every entry.
\<close>

definition AddMember :: "Member \<Rightarrow> Member list \<Rightarrow> Member list" where
  "AddMember member ms = (if NodeId member \<in> set (map NodeId ms) then ms else ms @ [member])"

definition RemoveMember :: "string \<Rightarrow> Member list \<Rightarrow> Member list" where
  "RemoveMember nodeId ms = filter (\<lambda>member. NodeId member \<noteq> nodeId) ms"

subsection \<open>Operations\<close>

definition isMaster :: "DiscoveryNATS \<Rightarrow> bool" where
  "isMaster d = (app_NodeId d = NodeId (masterMember d))"

definition isClient :: "DiscoveryNATS \<Rightarrow> bool" where
  "isClient d = (app_NodeId d \<noteq> NodeId (masterMember d))"

definition warned :: "string \<Rightarrow> DiscoveryNATS \<Rightarrow> DiscoveryNATS" where
  "warned w d = d\<lparr>clog := clog d @ [w]\<rparr>"

definition called :: "bus_event \<Rightarrow> DiscoveryNATS \<Rightarrow> DiscoveryNATS" where
  "called e d = d\<lparr>natsConn := natsConn d @ [e]\<rparr>"

definition subscribe :: "cluster \<Rightarrow> string \<Rightarrow> DiscoveryNATS \<Rightarrow> DiscoveryNATS" where
  "subscribe cl subject d =
     (let d1 = called (Subscribe subject (busSubscribe cl subject)) d
      in case busSubscribe cl subject of
           Some e \<Rightarrow> warned ''subscribe fail. err = %s'' d1
         | None \<Rightarrow> d1)"

text \<open>The callback \<open>init\<close> subscribes to the unregister subject.\<close>

definition on_unregister :: "cluster \<Rightarrow> Msg \<Rightarrow> DiscoveryNATS \<Rightarrow> DiscoveryNATS" where
  "on_unregister cl msg d =
     (case Unmarshal_Member cl (Msg_Data msg) of
        Inl e \<Rightarrow> warned ''err = %s'' d
      | Inr unregisterMember \<Rightarrow>
          if NodeId unregisterMember = app_NodeId d then d
          else d\<lparr>memberList := RemoveMember (NodeId unregisterMember) (memberList d)\<rparr>)"

text \<open>The loop of the register callback that collects the reply.\<close>

fun rspMemberList :: "string \<Rightarrow> string \<Rightarrow> Member list \<Rightarrow> Member list" where
  "rspMemberList newId appId [] = []"
| "rspMemberList newId appId (member # ms) =
     (if NodeId member = newId then rspMemberList newId appId ms
      else if NodeId member = appId then rspMemberList newId appId ms
      else member # rspMemberList newId appId ms)"

text \<open>The callback \<open>serverInit\<close> subscribes to the register subject.\<close>

definition on_register :: "cluster \<Rightarrow> Msg \<Rightarrow> DiscoveryNATS \<Rightarrow> DiscoveryNATS" where
  "on_register cl msg d =
     (case Unmarshal_Member cl (Msg_Data msg) of
        Inl e \<Rightarrow> warned ''IMember Unmarshal[name = %s] error. dataLen = %+v, err = %s'' d
      | Inr newMember \<Rightarrow>
          let d1 = d\<lparr>memberList := AddMember newMember (memberList d)\<rparr>;
              rsp = rspMemberList (NodeId newMember) (app_NodeId d1) (memberList d1)
          in (case Marshal_MemberList cl rsp of
                Inl e \<Rightarrow> warned ''marshal fail. err = %s'' d1
              | Inr rspData \<Rightarrow>
                  let d2 = called (Respond msg rspData (msgRespond cl msg rspData)) d1
                  in (case msgRespond cl msg rspData of
                        Some e \<Rightarrow> warned ''respond fail. err = %s'' d2
                      | None \<Rightarrow>
                          let d3 = called (Publish (addSubject d2) (Msg_Data msg)
                                      (busPublish cl (addSubject d2) (Msg_Data msg))) d2
                          in (case busPublish cl (addSubject d2) (Msg_Data msg) of
                                Some e \<Rightarrow> warned ''publish fail. err = %s'' d3
                              | None \<Rightarrow> d3))))"

text \<open>
  \<open>serverInit\<close>: on the master, add the master itself and subscribe to the
  register subject.
\<close>

definition serverInit :: "cluster \<Rightarrow> DiscoveryNATS \<Rightarrow> DiscoveryNATS" where
  "serverInit cl d =
     (if isMaster d = False then d
      else subscribe cl (registerSubject d)
             (d\<lparr>memberList := AddMember (masterMember d) (memberList d)\<rparr>))"

text \<open>
  The part of \<open>init\<close> that runs on every node: the three subjects, named after
  the master's node id, and the subscription to the unregister subject.
\<close>

definition init_subjects :: "cluster \<Rightarrow> DiscoveryNATS \<Rightarrow> DiscoveryNATS" where
  "init_subjects cl d =
     (let masterNodeId = NodeId (masterMember d)
      in subscribe cl (''cherry.discovery.'' @ masterNodeId @ ''.unregister'')
           (d\<lparr>registerSubject := ''cherry.discovery.'' @ masterNodeId @ ''.register'',
              unregisterSubject := ''cherry.discovery.'' @ masterNodeId @ ''.unregister'',
              addSubject := ''cherry.discovery.'' @ masterNodeId @ ''.addMember''\<rparr>))"

text \<open>
  \<open>Stop\<close>. The member a client announces carries its node id and nothing
  else.
\<close>

definition Stop :: "cluster \<Rightarrow> DiscoveryNATS \<Rightarrow> DiscoveryNATS" where
  "Stop cl d =
     (if isClient d
      then
        (let thisMember = \<lparr>NodeId = app_NodeId d, NodeType = [], Address = [], Settings = []\<rparr>
         in case Marshal_Member cl thisMember of
              Inl e \<Rightarrow> warned ''marshal fail. err = %s'' d
            | Inr bytesData \<Rightarrow>
                let d1 = called (Publish (unregisterSubject d) bytesData
                            (busPublish cl (unregisterSubject d) bytesData)) d
                in (case busPublish cl (unregisterSubject d) bytesData of
                      Some e \<Rightarrow> warned ''publish fail. err = %s'' d1
                    | None \<Rightarrow> called BusClose d1))
      else called BusClose d)"

section \<open>Concrete agents, applications and clusters\<close>

text \<open>
  A small application: payload 0 cannot be marshalled, any other number is
  one byte; a packet is its type, the length of its payload and the payload,
  of two bytes at most; a message is encoded as its data; the connection
  accepts every write.
\<close>

definition app_plain :: "nat facade" where
  "app_plain =
     \<lparr> Marshal = (\<lambda>v. if v = 0 then ([], Some (GoError ''unsupported type''))
                       else ([of_nat v], None)),
       PacketEncode = (\<lambda>t bs. if length bs > 2 then Inl (GoError ''packet too long'')
                               else Inr (t # of_nat (length bs) # bs)),
       PacketDecode = (\<lambda>bs. case bs of
                          t # n # rest \<Rightarrow>
                            if unat n = length rest
                            then Inr [\<lparr>packet_Type = t, packet_Data = rest\<rparr>]
                            else Inl (GoError ''wrong length'')
                        | _ \<Rightarrow> Inl (GoError ''short frame'')),
       MessageEncode = (\<lambda>m. Inr (Data m)),
       connWrite = (\<lambda>bs. None),
       connClose = None,
       profileDebug = False \<rparr>"

text \<open>
  The same application with a serializer that returns the byte it has written
  so far together with its error.
\<close>

definition app_partial :: "nat facade" where
  "app_partial =
     app_plain\<lparr>Marshal := (\<lambda>v. ([1], Some (GoError ''proto: required field not set'')))\<rparr>"

text \<open>The same application with a packet codec that refuses every packet.\<close>

definition app_refusing :: "nat facade" where
  "app_refusing = app_plain\<lparr>PacketEncode := (\<lambda>t bs. Inl (GoError ''wrong packet type''))\<rparr>"

text \<open>
  An agent in service: heartbeat 60 s, no commands, last packet stamped at
  second 8, both queues empty.
\<close>

definition agent_working :: "nat Agent" where
  "agent_working =
     \<lparr> Options = \<lparr>Heartbeat = 60000000000, Commands = Map.empty\<rparr>,
       Session = Some \<lparr>State = Working\<rparr>,
       chSend = [], chWrite = [], chSendClosed = False, chWriteClosed = False,
       lastAt = 8, lockHeld = False, trace = [] \<rparr>"

definition pending_chat :: "nat pendingMessage" where
  "pending_chat =
     \<lparr>msg_typ = Message_Push, route = ''chat'', mid = 0, payload = 7, err = False\<rparr>"

text \<open>The same agent with 64 messages waiting in the send queue.\<close>

definition agent_full :: "nat Agent" where
  "agent_full = agent_working\<lparr>chSend := replicate 64 pending_chat\<rparr>"

text \<open>The agent with one message waiting in the send queue.\<close>

definition agent_pending :: "nat Agent" where
  "agent_pending = agent_working\<lparr>chSend := [pending_chat]\<rparr>"

text \<open>The agent with a heartbeat of one second and a half.\<close>

definition agent_fractional :: "nat Agent" where
  "agent_fractional =
     agent_working\<lparr>Options := \<lparr>Heartbeat = 1500000000, Commands = Map.empty\<rparr>\<rparr>"

text \<open>A cluster of the master \<open>m1\<close> and the gates \<open>g1\<close> and \<open>g2\<close>.\<close>

definition member_m1 :: Member where
  "member_m1 =
     \<lparr>NodeId = ''m1'', NodeType = ''center'', Address = ''10.0.0.1'', Settings = []\<rparr>"

definition member_g1 :: Member where
  "member_g1 =
     \<lparr>NodeId = ''g1'', NodeType = ''gate'', Address = ''10.0.0.2'', Settings = []\<rparr>"

definition member_g2 :: Member where
  "member_g2 =
     \<lparr>NodeId = ''g2'', NodeType = ''gate'', Address = ''10.0.0.3'', Settings = []\<rparr>"

text \<open>
  A serializer that knows the two gates by one byte each and writes a member
  list as the lengths of its addresses, on a bus that takes every
  publication and every reply.
\<close>

definition cluster_plain :: cluster where
  "cluster_plain =
     \<lparr> Marshal_Member = (\<lambda>m. if NodeId m = ''g1'' then Inr [1]
                             else if NodeId m = ''g2'' then Inr [2]
                             else Inl (GoError ''unknown node'')),
       Unmarshal_Member = (\<lambda>bs. if bs = [1] then Inr member_g1
                               else if bs = [2] then Inr member_g2
                               else Inl (GoError ''not a member'')),
       Marshal_MemberList = (\<lambda>ms. Inr (map (\<lambda>m. of_nat (length (Address m))) ms)),
       busSubscribe = (\<lambda>subject. None),
       busPublish = (\<lambda>subject bs. None),
       msgRespond = (\<lambda>msg bs. None) \<rparr>"

text \<open>The same with a bus connection that is closed already.\<close>

definition cluster_down :: cluster where
  "cluster_down =
     cluster_plain\<lparr>busPublish := (\<lambda>subject bs. Some (GoError ''nats: connection closed''))\<rparr>"

text \<open>The same with a bus connection that closes before the reply is sent.\<close>

definition cluster_closing :: cluster where
  "cluster_closing =
     cluster_plain\<lparr>msgRespond := (\<lambda>msg bs. Some (GoError ''nats: connection closed''))\<rparr>"

text \<open>Discovery on the master, which knows itself and \<open>g1\<close>.\<close>

definition discovery_m1 :: DiscoveryNATS where
  "discovery_m1 =
     \<lparr> memberList = [member_m1, member_g1], app_NodeId = ''m1'', masterMember = member_m1,
       registerSubject = ''cherry.discovery.m1.register'',
       unregisterSubject = ''cherry.discovery.m1.unregister'',
       addSubject = ''cherry.discovery.m1.addMember'',
       natsConn = [], clog = [] \<rparr>"

text \<open>Discovery on the client \<open>g2\<close>, which knows all three.\<close>

definition discovery_g2 :: DiscoveryNATS where
  "discovery_g2 =
     discovery_m1\<lparr>memberList := [member_m1, member_g1, member_g2], app_NodeId := ''g2''\<rparr>"

definition register_g2 :: Msg where
  "register_g2 =
     \<lparr>Msg_Subject = ''cherry.discovery.m1.register'', Msg_Reply = ''_INBOX.1'',
      Msg_Data = [2]\<rparr>"

definition unregister_g1 :: Msg where
  "unregister_g1 =
     \<lparr>Msg_Subject = ''cherry.discovery.m1.unregister'', Msg_Reply = [], Msg_Data = [1]\<rparr>"

section \<open>Properties of the session agent\<close>

subsection \<open>The heartbeat of a new agent\<close>

lemma sint_Second: "sint Second = 1000000000"
  by (simp add: Second_def)

text \<open>
  \<^verbatim>\<open>Heartbeat.Seconds() < 1\<close> is the comparison of the nanosecond count with
  \<open>10^9\<close>, at every 64-bit duration, the negative ones included.
\<close>

lemma Seconds_less_1: "Seconds d < 1 \<longleftrightarrow> sint d < 1000000000"
proof (cases "0 \<le> sint d")
  case True
  define x where "x = sint d"
  have q: "x sdiv 1000000000 = x div 1000000000"
    using True by (simp add: x_def signed_divide_int_def sgn_if)
  have r: "x smod 1000000000 = x mod 1000000000"
    using True by (simp add: x_def smod_mod_positive)
  have r0: "0 \<le> x mod 1000000000" and r1: "x mod 1000000000 < 1000000000"
    by simp_all
  have q0: "0 \<le> x div 1000000000"
    using True by (simp add: x_def pos_imp_zdiv_nonneg_iff)
  have fr0: "(0::rat) \<le> of_int (x mod 1000000000) / 1000000000"
    using r0 by simp
  have fr1: "(of_int (x mod 1000000000) :: rat) / 1000000000 < 1"
    using r1 by simp
  show ?thesis
  proof
    assume "Seconds d < 1"
    then have "(of_int (x div 1000000000) :: rat) < 1"
      using fr0 by (simp add: Seconds_def sint_Second q r x_def[symmetric])
    then have "x div 1000000000 < 1" by linarith
    then have "x div 1000000000 = 0" using q0 by simp
    then show "sint d < 1000000000"
      using True by (auto simp add: x_def zdiv_eq_0_iff)
  next
    assume "sint d < 1000000000"
    then have "x div 1000000000 = 0" using True by (simp add: x_def)
    then show "Seconds d < 1"
      using fr1 by (simp add: Seconds_def sint_Second q r x_def[symmetric])
  qed
next
  case False
  define x where "x = sint d"
  have neg: "x < 0" using False by (simp add: x_def)
  have "x sdiv 1000000000 \<le> 0"
    using neg by (simp add: signed_divide_int_def sgn_if)
  moreover have "x smod 1000000000 \<le> 0"
    using neg smod_int_compares(4)[of x 1000000000] by simp
  ultimately have "Seconds d \<le> 0"
    by (simp add: Seconds_def sint_Second x_def[symmetric] divide_le_0_iff add_nonpos_nonpos)
  then show ?thesis using neg by (simp add: x_def)
qed

text \<open>
  C6. For every options value handed to \<open>NewAgent\<close> the constructor returns an
  agent, and the agent's heartbeat is 60 seconds when the configured duration
  is below one second (the zero value of an unspecified heartbeat included)
  and the configured duration otherwise; the commands are kept.
\<close>

theorem NewAgent_heartbeat:
  "\<exists>a. (NewAgent (Some opt) :: 'v Agent outcome) = Done a \<and>
       Heartbeat (Options a) =
         (if sint (Heartbeat opt) < 1000000000 then 60000000000 else Heartbeat opt) \<and>
       Commands (Options a) = Commands opt"
  by (simp add: NewAgent_def Seconds_less_1 Second_def)

text \<open>So the heartbeat of an agent that \<open>NewAgent\<close> made is a second at least.\<close>

lemma NewAgent_heartbeat_at_least_1s:
  assumes "(NewAgent (Some opt) :: 'v Agent outcome) = Done a"
  shows "1000000000 \<le> sint (Heartbeat (Options a))"
  using assms by (auto simp add: NewAgent_def Seconds_less_1 Second_def split: if_splits)

subsection \<open>Dropped sends\<close>

text \<open>
  C1, as the code has it. When the session is Closed, or the send queue holds
  64 messages or more, \<open>Send\<close> returns, and the agent it leaves is the agent it
  found with one warning more in the trace: nothing is enqueued and every
  message already in the queue stays where it was. The agent holds no counter
  of drops, so none is incremented.
\<close>

theorem Send_drops:
  assumes "Session a = Some s" and "State s = Closed \<or> 64 \<le> length (chSend a)"
  shows "\<exists>w. Send t r m v isError a = Done (a\<lparr>trace := trace a @ [SessionWarnf w]\<rparr>)"
  using assms by (auto simp add: Send_def logged_def WriteBacklog_def)

theorem Send_drops_witness:
  "Session agent_full = Some \<lparr>State = Working\<rparr> \<and> 64 \<le> length (chSend agent_full) \<and>
   (\<exists>w. Send Message_Push ''chat'' 0 7 False agent_full =
          Done (agent_full\<lparr>trace := trace agent_full @ [SessionWarnf w]\<rparr>))"
  using Send_drops [of agent_full "\<lparr>State = Working\<rparr>" Message_Push "''chat''" 0 7 False]
  by (simp add: agent_full_def agent_working_def)

text \<open>
  The send of a 65th message: the whole state afterwards is the state before
  with the warning added. The heartbeat, the stamp \<open>lastAt\<close> and the two queues,
  which are all the numbers an agent holds, are what they were: the drop is
  counted nowhere.
\<close>

theorem Send_drop_counts_nothing:
  "Send Message_Push ''chat'' 0 7 False agent_full =
     Done (agent_full\<lparr>trace := [SessionWarnf ''[send] session send buffer exceed'']\<rparr>)"
  by (simp add: Send_def logged_def WriteBacklog_def agent_full_def agent_working_def)

subsection \<open>Kick with a reason that cannot be marshalled\<close>

text \<open>
  C10, as the code has it. When marshalling the reason fails, \<open>Kick\<close> logs a
  warning and goes on: it hands the bytes the failed \<open>Marshal\<close> returned (none
  for a serializer that returns nil with its error) to the packet encoder as
  the payload of a Kick packet. If the encoder returns a packet, \<open>Kick\<close>
  writes it to the connection at once and exactly once; an error of the write
  is logged and changes nothing else; the only other thing \<open>Kick\<close> does is the
  debug line when the profile asks for it. If the encoder returns an error,
  \<open>Kick\<close> logs a second warning and returns with nothing written.
\<close>

theorem Kick_marshal_failure:
  assumes "Session a = Some s" and "Marshal app reason = (bs, Some e)"
  shows "Kick app reason a =
           (case PacketEncode app cherryPacket_Kick bs of
              Inr pkg \<Rightarrow>
                Done (a\<lparr>trace := trace a @
                  [SessionWarnf ''[Kick] marshal fail. [reason = %v] [error = %s].'',
                   ConnWrite pkg (connWrite app pkg)] @
                  (case connWrite app pkg of Some e' \<Rightarrow> [LoggerWarn] | None \<Rightarrow> []) @
                  (if profileDebug app then [SessionDebugf ''[Kick] [reason = %v]'']
                   else [])\<rparr>)
            | Inl e' \<Rightarrow>
                Done (a\<lparr>trace := trace a @
                  [SessionWarnf ''[Kick] marshal fail. [reason = %v] [error = %s].'',
                   SessionWarnf
                     ''[kick] packet encode error.[reason = %v] [error = %s].'']\<rparr>))"
  using assms
  by (auto simp add: Kick_def sessionLog_def logged_def Let_def split: sum.splits option.splits)

text \<open>
  The kick with reason 0, which the plain application cannot marshal: one
  warning, then the Kick packet with no payload written once.
\<close>

theorem Kick_marshal_failure_witness:
  "Session agent_working = Some \<lparr>State = Working\<rparr> \<and>
   Marshal app_plain 0 = ([], Some (GoError ''unsupported type'')) \<and>
   Kick app_plain 0 agent_working =
     Done (agent_working\<lparr>trace :=
       [SessionWarnf ''[Kick] marshal fail. [reason = %v] [error = %s].'',
        ConnWrite [5, 0] None]\<rparr>)"
  using Kick_marshal_failure [of agent_working "\<lparr>State = Working\<rparr>" app_plain 0 "[]"
      "GoError ''unsupported type''"]
  by (simp add: agent_working_def app_plain_def cherryPacket_Kick_def)

text \<open>
  With a packet codec that refuses the packet, the kick of an unmarshallable
  reason ends after two warnings: \<^verbatim>\<open>conn.Write\<close> is never called. With a
  serializer that returns a byte together with its error, the Kick packet
  written carries that byte: its payload is not empty.
\<close>

theorem Kick_encoder_refuses:
  "Kick app_refusing 0 agent_working =
     Done (agent_working\<lparr>trace :=
       [SessionWarnf ''[Kick] marshal fail. [reason = %v] [error = %s].'',
        SessionWarnf ''[kick] packet encode error.[reason = %v] [error = %s].'']\<rparr>) \<and>
   Marshal app_partial 0 = ([1], Some (GoError ''proto: required field not set'')) \<and>
   Kick app_partial 0 agent_working =
     Done (agent_working\<lparr>trace :=
       [SessionWarnf ''[Kick] marshal fail. [reason = %v] [error = %s].'',
        ConnWrite [5, 1, 1] None]\<rparr>)"
  by (simp add: Kick_def sessionLog_def logged_def app_refusing_def app_partial_def
      app_plain_def agent_working_def cherryPacket_Kick_def)

subsection \<open>Close\<close>

text \<open>
  On a session that is Closed, \<open>Close\<close> changes nothing: no hook runs, nothing
  is sent on the death channel and the connection is left alone.
\<close>

lemma Close_closed_changes_nothing:
  assumes "Session a = Some s" and "State s = Closed"
  shows "Close receiving app a = (if lockHeld a then Blocked a else Done a)"
  using assms by (simp add: Close_def)

text \<open>
  While the writer loop receives from the death channel, the first \<open>Close\<close>
  sets the session to Closed, runs the hooks, delivers the death signal and
  closes the connection, in this order, and a second \<open>Close\<close> changes nothing.
\<close>

lemma Close_first_with_receiver:
  assumes "Session a = Some s" and "State s \<noteq> Closed" and "\<not> lockHeld a"
  shows "\<exists>rest. Close True app a =
           Done (a\<lparr>Session := Some (s\<lparr>State := Closed\<rparr>),
                   trace := trace a @
                     [OnCloseProcess, DieSignal, ConnClose (connClose app)] @ rest\<rparr>)"
  using assms
  by (auto simp add: Close_def sessionLog_def logged_def Let_def split: option.splits)

lemma Close_twice:
  assumes "Close True app a = Done a'"
  shows "Close receiving app a' = Done a'"
  using assms
  by (auto simp add: Close_def sessionLog_def logged_def Let_def
      split: option.splits if_splits)

text \<open>
  C4 at the first \<open>Close\<close> of an agent whose writer is not at its \<^verbatim>\<open>select\<close>. The
  call sets the session to Closed, runs the hooks and then stays parked at the
  send on the death channel, holding the mutex: the signal is not delivered
  and the connection is not closed. This is the \<open>Close\<close> the writer itself
  makes, in its deferred function, when it leaves the loop on a heartbeat
  timeout: the writer of an agent in service, last stamped at second 8 with a
  heartbeat of 60 seconds, ticked at second 100, ends parked in \<open>Close\<close> with
  the connection open and the two queues not closed.
\<close>

theorem Close_without_receiver_never_closes_conn:
  "Close False app_plain agent_working =
     Blocked (agent_working\<lparr>Session := Some \<lparr>State = Closed\<rparr>, lockHeld := True,
                trace := [OnCloseProcess]\<rparr>) \<and>
   write_loop app_plain [(HeartbeatTick, 100000000000)] agent_working =
     Blocked (agent_working\<lparr>Session := Some \<lparr>State = Closed\<rparr>, lockHeld := True,
                trace := [SessionDebugf ''check heartbeat timeout.'',
                          SessionDebugf ''close session. [sid = %s]'',
                          TickerStop, OnCloseProcess]\<rparr>)"
  by (simp add: Close_def write_loop_def write_case_def write_deferred_def ready_def
      sessionLog_def logged_def agent_working_def app_plain_def Add_def Unix_def)

subsection \<open>The reader loop\<close>

text \<open>
  C8. In the reader loop of an agent with a session, a frame that the packet
  decoder rejects costs one warning and the loop goes on with the rest of the
  connection's input, the agent otherwise as it was (nothing is closed). An
  error from the connection read ends the loop, for every agent, every
  application and whatever input would follow, and the result is that of
  \<open>Close\<close> on the agent.
\<close>

theorem read_skips_and_stops:
  "(Session a = Some s \<and> PacketDecode app msg = Inl e \<longrightarrow>
      read receiving app ((now, Inr msg) # script) a =
        read receiving app script
          (a\<lparr>trace := trace a @
             [SessionWarnf ''packet decoder error. error[%s], msg[%s]'']\<rparr>)) \<and>
   read receiving app ((now', Inl e') # script') a = Close receiving app a"
  by (simp add: sessionLog_def logged_def)

theorem read_skips_and_stops_witness:
  "Session agent_working = Some \<lparr>State = Working\<rparr> \<and>
   PacketDecode app_plain [9] = Inl (GoError ''short frame'') \<and>
   read True app_plain [(1000000000, Inr [9]), (2000000000, Inr [9])] agent_working =
     Blocked (agent_working\<lparr>trace :=
       [SessionWarnf ''packet decoder error. error[%s], msg[%s]'',
        SessionWarnf ''packet decoder error. error[%s], msg[%s]'']\<rparr>) \<and>
   read True app_plain [(1000000000, Inl (GoError ''EOF'')), (2000000000, Inr [9])]
       agent_working =
     Done (agent_working\<lparr>Session := Some \<lparr>State = Closed\<rparr>,
             trace := [OnCloseProcess, DieSignal, ConnClose None]\<rparr>)"
  using read_skips_and_stops [of agent_working "\<lparr>State = Working\<rparr>" app_plain "[9]"
      "GoError ''short frame''" True 1000000000 "[(2000000000, Inr [9])]"
      1000000000 "GoError ''EOF''" "[(2000000000, Inr [9])]"]
  by (simp add: agent_working_def app_plain_def sessionLog_def logged_def Close_def)

text \<open>
  A packet stamps the agent only when its type has a command and the agent
  has a session; a packet of a type without a command leaves \<open>lastAt\<close> as it
  was.
\<close>

lemma processPacket_stamps:
  assumes "Session a = Some s"
  shows "processPacket now pkt a =
           (case Commands (Options a) (packet_Type pkt) of
              Some cmd \<Rightarrow> Done (a\<lparr>Session := Some (cmd s pkt), lastAt := of_int (Unix now)\<rparr>)
            | None \<Rightarrow>
                Done (a\<lparr>trace := trace a @ [SessionDebugf ''packet[%s] type not found.'']\<rparr>))"
  using assms
  by (simp add: processPacket_def SetLastAt_def sessionLog_def logged_def split: option.splits)

subsection \<open>The writer loop: which source is taken\<close>

text \<open>
  C2, as the code has it. In every turn of the writer loop the source taken
  is one of the sources that are ready, and every source that is ready can be
  the one taken; what the turn does is the body of that source's case. The
  \<^verbatim>\<open>select\<close> puts no order on the four sources: the first ready source in the
  order death signal, heartbeat tick, raw-write queue, send queue is one of
  the sources the turn can take, and no source can be taken when that order
  finds none.
\<close>

theorem write_select_takes_any_ready_source:
  "write_select app now dying ticked a src r =
     (ready dying ticked a src \<and> r = write_case app now src a) \<and>
   (case first_ready dying ticked a of
      None \<Rightarrow> \<forall>src'. \<not> ready dying ticked a src'
    | Some p \<Rightarrow> write_select app now dying ticked a p (write_case app now p a))"
proof -
  have iff: "write_select app now dying ticked a src r =
     (ready dying ticked a src \<and> r = write_case app now src a)" for src r
    by (auto simp add: write_select.simps)
  have none: "\<forall>src'. \<not> ready dying ticked a src'" if "first_ready dying ticked a = None"
    using that by (auto simp add: first_ready_def ready_def split: if_splits source.splits)
  have some: "ready dying ticked a p" if "first_ready dying ticked a = Some p" for p
    using that by (auto simp add: first_ready_def ready_def split: if_splits)
  show ?thesis
    using iff none some by (simp split: option.splits)
qed

text \<open>
  With the death signal pending and one message in the send queue, the loop
  can take the send queue: it encodes the message, puts the packet into the
  raw-write queue and goes round again, although the death signal comes first
  in the priority order.
\<close>

theorem write_select_no_priority:
  "write_select app_plain 0 True False agent_pending SendQueue
     (Continue (agent_working\<lparr>chWrite := [[4, 1, 7]]\<rparr>)) \<and>
   first_ready True False agent_pending = Some DeathSignal"
proof -
  have "ready True False agent_pending SendQueue"
    by (simp add: ready_def agent_pending_def)
  then have "write_select app_plain 0 True False agent_pending SendQueue
               (write_case app_plain 0 SendQueue agent_pending)"
    by (rule select)
  moreover have "write_case app_plain 0 SendQueue agent_pending =
                   Continue (agent_working\<lparr>chWrite := [[4, 1, 7]]\<rparr>)"
    by (simp add: write_case_def agent_pending_def agent_working_def pending_chat_def
        app_plain_def WriteBacklog_def cherryPacket_Data_def)
  moreover have "first_ready True False agent_pending = Some DeathSignal"
    by (simp add: first_ready_def)
  ultimately show ?thesis by simp
qed

subsection \<open>The writer loop: the heartbeat tick\<close>

lemma less_div_iff_int:
  fixes c :: int
  assumes "0 < c"
  shows "(l < x div c) = ((l + 1) * c \<le> x)"
proof
  assume "l < x div c"
  then have "l + 1 \<le> x div c" by simp
  then have "(l + 1) * c \<le> x div c * c"
    using assms by (simp add: mult_right_mono)
  also have "x div c * c \<le> x"
    using assms div_mult_mod_eq [of x c] pos_mod_sign [of c x] by linarith
  finally show "(l + 1) * c \<le> x" .
next
  assume h: "(l + 1) * c \<le> x"
  have "x < x div c * c + c"
    using assms div_mult_mod_eq [of x c] pos_mod_bound [of c x] by linarith
  then have "(l + 1) * c < (x div c + 1) * c"
    using h by (simp add: algebra_simps)
  then have "l + 1 < x div c + 1"
    using assms by (simp add: mult_less_cancel_right_pos del: add_less_cancel_right)
  then show "l < x div c" by simp
qed

lemma div_minus_multiple:
  fixes c :: int
  assumes "0 < c"
  shows "(x - h * c) div c = x div c - h"
proof -
  have "(x + (- h) * c) div c = - h + x div c"
    using assms by (simp only: div_mult_self1 [of c x "- h"])
  then show ?thesis by simp
qed

text \<open>Negating a heartbeat of a second or more does not wrap around.\<close>

lemma sint_minus_heartbeat:
  fixes h :: "64 word"
  assumes "1000000000 \<le> sint h"
  shows "sint (- h) = - sint h"
proof -
  have "sint h < 2 ^ 63" using sint_lt [of h] by simp
  then have "signed_take_bit 63 (- sint h) = - sint h"
    using assms by (intro signed_take_bit_int_eq_self) simp_all
  then show ?thesis by (simp add: sint_word_minus)
qed

text \<open>
  C5, as the code has it. On a heartbeat tick, the writer of an agent with a
  session and a heartbeat of a second or more (which \<open>NewAgent\<close> ensures)
  leaves its loop, with one debug line, and runs its deferred function
  exactly when the last heartbeat stamp, a count of whole seconds, is less
  than the whole seconds of \<open>now - heartbeat\<close>, rounded down; otherwise it goes
  on with the loop, the agent as it was. That is: exactly when at least the
  heartbeat and one second more have passed since the start of the stamped
  second. When the heartbeat is a whole number of seconds this is
  \<open>now - lastAt > heartbeat\<close>, all three counted in whole seconds. Hence, for
  a last packet stamped at the instant \<open>stamped\<close>: a tick no later than a
  heartbeat after it finds the writer going on; and once more than a
  heartbeat has passed since it, the tick one heartbeat later finds the
  writer leaving the loop, if it has not left before.
\<close>

theorem heartbeat_tick:
  assumes "Session a = Some s" and "1000000000 \<le> sint (Heartbeat (Options a))"
  shows "write_loop app ((HeartbeatTick, now) # sched) a =
           (if sint (lastAt a) < Unix (now - sint (Heartbeat (Options a)))
            then write_deferred app
                   (a\<lparr>trace := trace a @ [SessionDebugf ''check heartbeat timeout.'']\<rparr>)
            else write_loop app sched a) \<and>
         (sint (lastAt a) < Unix (now - sint (Heartbeat (Options a)))) =
           (sint (Heartbeat (Options a)) + 1000000000 \<le> now - sint (lastAt a) * 1000000000) \<and>
         (sint (Heartbeat (Options a)) mod 1000000000 = 0 \<longrightarrow>
            (sint (lastAt a) < Unix (now - sint (Heartbeat (Options a)))) =
              (sint (Heartbeat (Options a)) div 1000000000 < Unix now - sint (lastAt a))) \<and>
         (sint (lastAt a) = Unix stamped \<and> now - stamped \<le> sint (Heartbeat (Options a)) \<longrightarrow>
            write_loop app ((HeartbeatTick, now) # sched) a = write_loop app sched a) \<and>
         (sint (lastAt a) = Unix stamped \<and> sint (Heartbeat (Options a)) < now - stamped \<longrightarrow>
            write_loop app ((HeartbeatTick, now + sint (Heartbeat (Options a))) # sched) a =
              write_deferred app
                (a\<lparr>trace := trace a @ [SessionDebugf ''check heartbeat timeout.'']\<rparr>))"
proof -
  define h where "h = sint (Heartbeat (Options a))"
  define l where "l = sint (lastAt a)"
  define left where
    "left = write_deferred app
              (a\<lparr>trace := trace a @ [SessionDebugf ''check heartbeat timeout.'']\<rparr>)"
  have pos: "\<not> h \<le> 0"
    using assms(2) by (simp add: h_def)
  have neg: "sint (- Heartbeat (Options a)) = - h"
    using assms(2) by (simp add: h_def sint_minus_heartbeat)
  have step: "write_case app t HeartbeatTick a =
           (if l < Unix (t - h)
            then Return (a\<lparr>trace := trace a @ [SessionDebugf ''check heartbeat timeout.'']\<rparr>)
            else Continue a)" for t
    using assms(1) by (simp add: write_case_def Add_def neg sessionLog_def logged_def l_def)
  have first: "write_loop app ((HeartbeatTick, t) # sched) a =
           (if l < Unix (t - h) then left else write_loop app sched a)" for t
    using pos by (simp add: write_loop_def ready_def step left_def h_def[symmetric])
  have second: "(l < Unix (t - h)) = (h + 1000000000 \<le> t - l * 1000000000)" for t
    unfolding Unix_def using less_div_iff_int [of 1000000000 l "t - h"]
    by (simp add: algebra_simps)
  have third: "(l < Unix (now - h)) = (h div 1000000000 < Unix now - l)"
    if "h mod 1000000000 = 0"
  proof -
    have "h = h div 1000000000 * 1000000000"
      using that div_mult_mod_eq [of h 1000000000] by simp
    then have "(now - h) div 1000000000 = now div 1000000000 - h div 1000000000"
      using div_minus_multiple [of 1000000000 now "h div 1000000000"] by simp
    then show ?thesis by (auto simp add: Unix_def)
  qed
  have floor: "l * 1000000000 \<le> stamped \<and> stamped < l * 1000000000 + 1000000000"
    if "l = Unix stamped"
  proof -
    have whole: "stamped div 1000000000 * 1000000000 + stamped mod 1000000000 = stamped"
      by (rule div_mult_mod_eq)
    have "0 \<le> stamped mod 1000000000" and "stamped mod 1000000000 < 1000000000"
      by simp_all
    with whole show ?thesis
      unfolding that Unix_def by linarith
  qed
  have fourth: "write_loop app ((HeartbeatTick, now) # sched) a = write_loop app sched a"
    if "l = Unix stamped" and "now - stamped \<le> h"
  proof -
    have "\<not> h + 1000000000 \<le> now - l * 1000000000"
      using floor [OF that(1)] that(2) by linarith
    then show ?thesis using first [of now] second [of now] by simp
  qed
  have fifth: "write_loop app ((HeartbeatTick, now + h) # sched) a = left"
    if "l = Unix stamped" and "h < now - stamped"
  proof -
    have "h + 1000000000 \<le> now + h - l * 1000000000"
      using floor [OF that(1)] that(2) assms(2) by (simp add: h_def)
    then show ?thesis using first [of "now + h"] second [of "now + h"] by simp
  qed
  have c1: "write_loop app ((HeartbeatTick, now) # sched) a =
           (if l < Unix (now - h) then left else write_loop app sched a)"
    by (rule first)
  have c2: "(l < Unix (now - h)) = (h + 1000000000 \<le> now - l * 1000000000)"
    by (rule second)
  have c3: "h mod 1000000000 = 0 \<longrightarrow>
            (l < Unix (now - h)) = (h div 1000000000 < Unix now - l)"
    using third by blast
  have c4: "l = Unix stamped \<and> now - stamped \<le> h \<longrightarrow>
            write_loop app ((HeartbeatTick, now) # sched) a = write_loop app sched a"
    using fourth by blast
  have c5: "l = Unix stamped \<and> h < now - stamped \<longrightarrow>
            write_loop app ((HeartbeatTick, now + h) # sched) a = left"
    using fifth by blast
  show ?thesis
    unfolding h_def [symmetric] l_def [symmetric] left_def [symmetric]
    by (intro conjI c1 c2 c3 c4 c5)
qed

text \<open>
  The agent stamped at second 8 (say at 8.5 s) with a heartbeat of 60 s. A
  tick at 69.2 s makes the writer leave the loop and run its deferred
  function; at 68.9 s the writer goes on and, with a message waiting, takes
  the send queue next. At 68.4 s the packet is within the heartbeat; at
  68.6 s it is not, and the tick at 128.6 s makes the writer leave.
\<close>

theorem heartbeat_tick_witness:
  "Session agent_pending = Some \<lparr>State = Working\<rparr> \<and>
   1000000000 \<le> sint (Heartbeat (Options agent_pending)) \<and>
   sint (Heartbeat (Options agent_pending)) mod 1000000000 = 0 \<and>
   sint (lastAt agent_pending) = Unix 8500000000 \<and>
   write_loop app_plain [(HeartbeatTick, 69200000000), (SendQueue, 69200000000)] agent_pending =
     write_deferred app_plain
       (agent_pending\<lparr>trace := [SessionDebugf ''check heartbeat timeout.'']\<rparr>) \<and>
   write_loop app_plain [(HeartbeatTick, 68900000000), (SendQueue, 68900000000)] agent_pending =
     Blocked (agent_working\<lparr>chWrite := [[4, 1, 7]]\<rparr>) \<and>
   write_loop app_plain [(HeartbeatTick, 68400000000), (SendQueue, 68400000000)] agent_pending =
     Blocked (agent_working\<lparr>chWrite := [[4, 1, 7]]\<rparr>) \<and>
   write_loop app_plain [(HeartbeatTick, 128600000000), (SendQueue, 128600000000)]
       agent_pending =
     write_deferred app_plain
       (agent_pending\<lparr>trace := [SessionDebugf ''check heartbeat timeout.'']\<rparr>)"
  using heartbeat_tick [of agent_pending "\<lparr>State = Working\<rparr>" app_plain 69200000000
      "[(SendQueue, 69200000000)]" 8500000000]
    heartbeat_tick [of agent_pending "\<lparr>State = Working\<rparr>" app_plain 68900000000
      "[(SendQueue, 68900000000)]" 8500000000]
    heartbeat_tick [of agent_pending "\<lparr>State = Working\<rparr>" app_plain 68400000000
      "[(SendQueue, 68400000000)]" 8500000000]
    heartbeat_tick [of agent_pending "\<lparr>State = Working\<rparr>" app_plain 68600000000
      "[(SendQueue, 128600000000)]" 8500000000]
  by (simp add: agent_pending_def agent_working_def pending_chat_def app_plain_def Unix_def
      write_loop_def ready_def write_case_def WriteBacklog_def cherryPacket_Data_def)

text \<open>
  With a heartbeat of 1.5 s, a stamp at second 8 and a tick at 10.2 s the
  writer goes on, although the time since the stamp is more than the
  heartbeat, whether now is taken to the nanosecond (2.2 s) or in whole
  seconds (2 s). And where the tick makes the writer leave the loop, at 11 s,
  the writer does not end: its deferred function stays parked in \<open>Close\<close>.
\<close>

theorem heartbeat_tick_fractional:
  "write_case app_plain 10200000000 HeartbeatTick agent_fractional = Continue agent_fractional \<and>
   sint (Heartbeat (Options agent_fractional)) <
     10200000000 - sint (lastAt agent_fractional) * 1000000000 \<and>
   sint (Heartbeat (Options agent_fractional)) <
     (Unix 10200000000 - sint (lastAt agent_fractional)) * 1000000000 \<and>
   write_loop app_plain [(HeartbeatTick, 10200000000)] agent_fractional =
     Blocked agent_fractional \<and>
   write_loop app_plain [(HeartbeatTick, 11000000000)] agent_fractional =
     Blocked (agent_fractional\<lparr>Session := Some \<lparr>State = Closed\<rparr>, lockHeld := True,
                trace := [SessionDebugf ''check heartbeat timeout.'',
                          SessionDebugf ''close session. [sid = %s]'',
                          TickerStop, OnCloseProcess]\<rparr>)"
  by (simp add: write_loop_def write_case_def write_deferred_def Close_def ready_def
      sessionLog_def logged_def agent_fractional_def agent_working_def Add_def Unix_def)

section \<open>Properties of discovery\<close>

lemma rspMemberList_filter:
  "rspMemberList newId appId ms =
     filter (\<lambda>member. NodeId member \<noteq> newId \<and> NodeId member \<noteq> appId) ms"
  by (induction ms) auto

lemma AddMember_present: "NodeId member \<in> NodeId ` set (AddMember member ms)"
  by (simp add: AddMember_def)

lemma RemoveMember_absent: "nodeId \<notin> NodeId ` set (RemoveMember nodeId ms)"
  by (auto simp add: RemoveMember_def)

subsection \<open>The register request on the master\<close>

text \<open>
  C3, as the code has it. On the master, for every register request whose
  member deserializes, the handler adds the member to the registry, so that
  its node id is registered afterwards, whatever becomes of the reply.
  Provided the member list to return (the registry after the add, without
  exactly the entries whose node id is the requester's or the master's own)
  marshals, and the reply with it is sent without error, the handler makes
  two calls on the bus, in this order: the reply to the requester with that
  list, and the publication of the request's bytes on the addMember subject.
\<close>

theorem on_register_replies_then_publishes:
  assumes "isMaster d" and "Unmarshal_Member cl (Msg_Data msg) = Inr newMember"
  shows "memberList (on_register cl msg d) = AddMember newMember (memberList d) \<and>
         NodeId newMember \<in> NodeId ` set (memberList (on_register cl msg d)) \<and>
         (Marshal_MemberList cl
            (filter (\<lambda>member. NodeId member \<noteq> NodeId newMember \<and>
                              NodeId member \<noteq> NodeId (masterMember d))
               (AddMember newMember (memberList d))) = Inr rspData \<and>
          msgRespond cl msg rspData = None \<longrightarrow>
            natsConn (on_register cl msg d) =
              natsConn d @
                [Respond msg rspData None,
                 Publish (addSubject d) (Msg_Data msg)
                   (busPublish cl (addSubject d) (Msg_Data msg))])"
proof -
  have self: "app_NodeId d = NodeId (masterMember d)"
    using assms(1) by (simp add: isMaster_def)
  have ml: "memberList (on_register cl msg d) = AddMember newMember (memberList d)"
    using assms(2)
    by (simp add: on_register_def called_def warned_def Let_def
        split: sum.splits option.splits)
  have bus: "natsConn (on_register cl msg d) =
           natsConn d @
             [Respond msg rspData None,
              Publish (addSubject d) (Msg_Data msg)
                (busPublish cl (addSubject d) (Msg_Data msg))]"
    if "Marshal_MemberList cl
            (filter (\<lambda>member. NodeId member \<noteq> NodeId newMember \<and>
                              NodeId member \<noteq> NodeId (masterMember d))
               (AddMember newMember (memberList d))) = Inr rspData"
      and "msgRespond cl msg rspData = None"
    using assms(2) that self
    by (simp add: on_register_def rspMemberList_filter called_def warned_def Let_def
        split: option.splits)
  show ?thesis
    using ml bus AddMember_present [of newMember "memberList d"] by simp
qed

text \<open>
  The register request of \<open>g2\<close> on the master that knows itself and \<open>g1\<close>:
  \<open>g2\<close> is added, the reply lists \<open>g1\<close> alone, and the publication follows it.
\<close>

theorem on_register_replies_then_publishes_witness:
  "isMaster discovery_m1 \<and>
   Unmarshal_Member cluster_plain (Msg_Data register_g2) = Inr member_g2 \<and>
   Marshal_MemberList cluster_plain [member_g1] = Inr [8] \<and>
   msgRespond cluster_plain register_g2 [8] = None \<and>
   memberList (on_register cluster_plain register_g2 discovery_m1) =
     [member_m1, member_g1, member_g2] \<and>
   natsConn (on_register cluster_plain register_g2 discovery_m1) =
     [Respond register_g2 [8] None, Publish ''cherry.discovery.m1.addMember'' [2] None]"
  using on_register_replies_then_publishes
    [of discovery_m1 cluster_plain register_g2 member_g2 "[8]"]
  by (simp add: isMaster_def discovery_m1_def cluster_plain_def register_g2_def AddMember_def
      member_m1_def member_g1_def member_g2_def)

text \<open>
  The same request when the bus connection closes before the reply is sent:
  the member deserializes and is added, the reply fails, and the only call on
  the bus is that failed reply. Nothing is published on the addMember
  subject.
\<close>

theorem on_register_reply_fails:
  "isMaster discovery_m1 \<and>
   Unmarshal_Member cluster_closing (Msg_Data register_g2) = Inr member_g2 \<and>
   memberList (on_register cluster_closing register_g2 discovery_m1) =
     [member_m1, member_g1, member_g2] \<and>
   natsConn (on_register cluster_closing register_g2 discovery_m1) =
     [Respond register_g2 [8] (Some (GoError ''nats: connection closed''))]"
  by (simp add: on_register_def isMaster_def called_def warned_def discovery_m1_def
      cluster_closing_def cluster_plain_def register_g2_def AddMember_def member_m1_def
      member_g1_def member_g2_def)

subsection \<open>The unregister message\<close>

text \<open>
  C7. On every node, for an unregister message whose member deserializes, the
  handler removes the carried node id from the member registry if and only
  if that id is not the node's own: with the node's own id the discovery
  state is left as it is, with any other id the registry loses the entry of
  that id and nothing else changes. So afterwards the carried id is
  registered only if it is the node's own and was registered before, and the
  node's own entry is what it was.
\<close>

theorem on_unregister_never_removes_self:
  assumes "Unmarshal_Member cl (Msg_Data msg) = Inr unregisterMember"
  shows "on_unregister cl msg d =
           (if NodeId unregisterMember = app_NodeId d then d
            else d\<lparr>memberList := RemoveMember (NodeId unregisterMember) (memberList d)\<rparr>) \<and>
         (NodeId unregisterMember \<in> NodeId ` set (memberList (on_unregister cl msg d))) =
           (NodeId unregisterMember = app_NodeId d \<and>
            app_NodeId d \<in> NodeId ` set (memberList d)) \<and>
         filter (\<lambda>member. NodeId member = app_NodeId d) (memberList (on_unregister cl msg d)) =
           filter (\<lambda>member. NodeId member = app_NodeId d) (memberList d)"
  using assms RemoveMember_absent [of "NodeId unregisterMember" "memberList d"]
  by (auto simp add: on_unregister_def RemoveMember_def intro: filter_cong)

text \<open>
  The unregister message of \<open>g1\<close>: on \<open>g2\<close> it removes \<open>g1\<close>, on \<open>g1\<close> itself it
  changes nothing.
\<close>

theorem on_unregister_never_removes_self_witness:
  "Unmarshal_Member cluster_plain (Msg_Data unregister_g1) = Inr member_g1 \<and>
   on_unregister cluster_plain unregister_g1 discovery_g2 =
     discovery_g2\<lparr>memberList := [member_m1, member_g2]\<rparr> \<and>
   on_unregister cluster_plain unregister_g1 (discovery_g2\<lparr>app_NodeId := ''g1''\<rparr>) =
     discovery_g2\<lparr>app_NodeId := ''g1''\<rparr>"
  using on_unregister_never_removes_self [of cluster_plain unregister_g1 member_g1 discovery_g2]
    on_unregister_never_removes_self
      [of cluster_plain unregister_g1 member_g1 "discovery_g2\<lparr>app_NodeId := ''g1''\<rparr>"]
  by (simp add: cluster_plain_def unregister_g1_def discovery_g2_def discovery_m1_def
      RemoveMember_def member_m1_def member_g1_def member_g2_def)

subsection \<open>Shutdown\<close>

text \<open>
  C9, as the code has it. On a client node, when the member that carries the
  node's own id marshals and its publication on the unregister subject
  succeeds, \<open>Stop\<close> makes two calls on the bus, in this order: that
  publication, and the close of the bus client. On the master \<open>Stop\<close> makes
  one call, the close of the bus client. Nothing else of the discovery state
  changes.
\<close>

theorem Stop_publishes_then_closes:
  "(isClient d \<and>
    Marshal_Member cl \<lparr>NodeId = app_NodeId d, NodeType = [], Address = [], Settings = []\<rparr> =
      Inr bytesData \<and>
    busPublish cl (unregisterSubject d) bytesData = None \<longrightarrow>
      Stop cl d =
        d\<lparr>natsConn := natsConn d @ [Publish (unregisterSubject d) bytesData None, BusClose]\<rparr>) \<and>
   (isMaster d \<longrightarrow> Stop cl d = d\<lparr>natsConn := natsConn d @ [BusClose]\<rparr>)"
  by (simp add: Stop_def isClient_def isMaster_def called_def)

theorem Stop_publishes_then_closes_witness:
  "isClient discovery_g2 \<and> isMaster discovery_m1 \<and>
   Stop cluster_plain discovery_g2 =
     discovery_g2\<lparr>natsConn := [Publish ''cherry.discovery.m1.unregister'' [2] None, BusClose]\<rparr> \<and>
   Stop cluster_plain discovery_m1 = discovery_m1\<lparr>natsConn := [BusClose]\<rparr>"
  using Stop_publishes_then_closes [of discovery_g2 cluster_plain "[2]"]
    Stop_publishes_then_closes [of discovery_m1 cluster_plain "[]"]
  by (simp add: isClient_def isMaster_def discovery_g2_def discovery_m1_def cluster_plain_def
      member_m1_def)

text \<open>
  The client \<open>g2\<close> stopping while the bus connection is down: the publication
  fails, \<open>Stop\<close> logs a warning and returns, and the bus client is not closed.
\<close>

theorem Stop_publish_fails:
  "isClient discovery_g2 \<and>
   Stop cluster_down discovery_g2 =
     discovery_g2\<lparr>natsConn := [Publish ''cherry.discovery.m1.unregister'' [2]
                                  (Some (GoError ''nats: connection closed''))],
                   clog := [''publish fail. err = %s'']\<rparr>"
  by (simp add: Stop_def isClient_def called_def warned_def discovery_g2_def discovery_m1_def
      cluster_down_def cluster_plain_def member_m1_def)

end
